theory Spec2Isabelle
  imports Complex_Main
begin

section \<open>Python exceptions and values\<close>

text \<open>
  The exceptions the modelled code can meet. \<open>ServiceException\<close> is
  \<open>rospy.ServiceException\<close>, the only class \<open>_set_service_request\<close> catches;
  \<open>AttributeError\<close> is what reading an attribute of \<open>None\<close> raises;
  \<open>Other_Exception\<close> stands for any other subclass of \<open>Exception\<close>;
  \<open>KeyboardInterrupt\<close> derives from \<open>BaseException\<close> only, so that
  \<open>except Exception\<close> does not catch it. A computation that may raise has the type
  \<open>exn + 'a\<close>: \<open>Inl e\<close> is the exception \<open>e\<close> leaving the function.
\<close>

datatype exn = ServiceException | AttributeError | Other_Exception | KeyboardInterrupt

fun is_Exception :: "exn \<Rightarrow> bool" where
  "is_Exception KeyboardInterrupt = False"
| "is_Exception ServiceException = True"
| "is_Exception AttributeError = True"
| "is_Exception Other_Exception = True"

section \<open>mavros\_uav\_robot\_env.py: the service request with confirmation\<close>

text \<open>
  A \<open>rospy.Time\<close> and the difference of two of them are counted in nanoseconds;
  \<open>to_sec\<close> is \<open>Duration.to_sec()\<close>. The floats \<open>wait_time\<close> and
  \<open>timeout\<close> are real numbers: the rounding of float arithmetic is not modelled,
  so the model and the code may differ where the elapsed time equals \<open>timeout\<close> up
  to rounding; nothing below is stated at that boundary.
\<close>

definition to_sec :: "int \<Rightarrow> real" where
  "to_sec d = real_of_int d / 1000000000"

text \<open>
  The call sees the rest of the process (the clock, the shutdown flag, the telemetry
  that the subscriber callbacks overwrite, the remote service) only through
  \<open>rospy.Time.now()\<close>, \<open>rospy.is_shutdown()\<close>, \<open>cond()\<close> and
  \<open>srv(*req)\<close>. These consultations are numbered in program order from 0, and the
  outside world is given by what each of them answers at a given number:
  \<open>now r n\<close> and \<open>is_shutdown r n\<close> for rospy, \<open>cond n\<close> for the readiness
  predicate, \<open>srv req n\<close> for the service proxy (\<open>Inr v\<close>: the call returned the
  object \<open>v\<close>). The events are what the call did, in order, log lines included.
\<close>

text \<open>
  What \<open>srv(*req)\<close> may return. The four \<open>rospy.ServiceProxy\<close> of lines 104 to 107
  return the response message of their service, a \<open>Response\<close> with the
  acknowledgement it carries (\<open>success\<close> of \<open>CommandBool\<close> and \<open>CommandTOL\<close>,
  \<open>mode_sent\<close> of \<open>SetMode\<close>); the two other constructors are for a callable that
  returns a plain boolean or \<open>None\<close>. \<open>truth\<close> is the truth value that
  \<open>if srv(*req)\<close> computes: a response message is an object whose class defines
  neither \<open>__bool__\<close> (\<open>__nonzero__\<close>) nor \<open>__len__\<close>, so it is true whatever its
  fields hold.
\<close>

datatype srv_return = Response bool | Returned_bool bool | Returned_None

fun truth :: "srv_return \<Rightarrow> bool" where
  "truth (Response ack) = True"
| "truth (Returned_bool b) = b"
| "truth Returned_None = False"

record ros =
  now :: "nat \<Rightarrow> int"
  is_shutdown :: "nat \<Rightarrow> bool"

datatype event =
    Time_now
  | Cond
  | Srv
  | Is_shutdown
  | Loginfo string
  | Logwarn string
  | Logfatal string

text \<open>
  The loop \<open>while not cond() and not rospy.is_shutdown()\<close> of lines 116 to 119, from
  consultation \<open>n\<close> on. It may run for ever, so it takes fuel, one unit for each
  evaluation of the loop condition; \<open>None\<close> means the fuel ran out.
  \<open>Some (Inr b, tr)\<close>: the function returns \<open>b\<close> from inside or just after the
  loop; \<open>Some (Inl e, tr)\<close>: \<open>cond()\<close> raised \<open>e\<close>.
\<close>

fun wait_for_updated_state ::
  "nat \<Rightarrow> ros \<Rightarrow> string \<Rightarrow> (nat \<Rightarrow> exn + bool) \<Rightarrow> int \<Rightarrow> real \<Rightarrow> nat \<Rightarrow> event list
    \<Rightarrow> ((exn + bool) \<times> event list) option" where
  "wait_for_updated_state 0 r name cond start_time timeout n tr = None"
| "wait_for_updated_state (Suc fuel) r name cond start_time timeout n tr =
     (case cond n of
        Inl e \<Rightarrow> Some (Inl e, tr @ [Cond])
      | Inr c \<Rightarrow>
          if c then Some (Inr True, tr @ [Cond])
          else if is_shutdown r (n + 1) then Some (Inr True, tr @ [Cond, Is_shutdown])
          else if to_sec (now r (n + 2) - start_time) \<ge> timeout
            then Some (Inr False, tr @ [Cond, Is_shutdown, Time_now,
                   Logfatal (''Call to service '' @ name @ '' successful but not response...'')])
            else wait_for_updated_state fuel r name cond start_time timeout (n + 3)
                   (tr @ [Cond, Is_shutdown, Time_now]))"

text \<open>The clause \<open>except rospy.ServiceException\<close> of lines 124 to 126.\<close>

definition except_ServiceException ::
  "string \<Rightarrow> exn \<Rightarrow> event list \<Rightarrow> (exn + bool) \<times> event list" where
  "except_ServiceException name e tr =
     (if e = ServiceException
      then (Inr False, tr @ [Logwarn (''Call to service '' @ name @ '' failed.'')])
      else (Inl e, tr))"

text \<open>
  \<open>_set_service_request(self, name, cond, srv, req, wait_time=0.05, timeout=5.0)\<close>,
  lines 109 to 129. Consultation 0 is \<open>start_time = rospy.Time.now()\<close>, 1 is the
  first \<open>cond()\<close>, 2 is \<open>srv(*req)\<close>, and the loop starts at 3. The body never
  reads \<open>wait_time\<close>.
\<close>

definition set_service_request ::
  "nat \<Rightarrow> ros \<Rightarrow> string \<Rightarrow> (nat \<Rightarrow> exn + bool) \<Rightarrow> ('req \<Rightarrow> nat \<Rightarrow> exn + srv_return) \<Rightarrow> 'req
    \<Rightarrow> real \<Rightarrow> real \<Rightarrow> ((exn + bool) \<times> event list) option" where
  "set_service_request fuel r name cond srv req wait_time timeout =
     (let start_time = now r 0 in
      case cond 1 of
        Inl e \<Rightarrow> Some (Inl e, [Time_now, Cond])
      | Inr c \<Rightarrow>
          if \<not> c then
            (case srv req 2 of
               Inl e \<Rightarrow> Some (except_ServiceException name e [Time_now, Cond, Srv])
             | Inr v \<Rightarrow>
                 if truth v then
                   (case wait_for_updated_state fuel r name cond start_time timeout 3
                           [Time_now, Cond, Srv,
                            Loginfo (''Service '' @ name @ '' request successful!'')] of
                      None \<Rightarrow> None
                    | Some (Inl e, tr) \<Rightarrow> Some (except_ServiceException name e tr)
                    | Some (Inr b, tr) \<Rightarrow> Some (Inr b, tr))
                 else Some (Inr False, [Time_now, Cond, Srv,
                        Logwarn (''Call to service '' @ name @ '' failed.'')]))
          else Some (Inr True, [Time_now, Cond,
                 Loginfo (''Service '' @ name @ '' condition is already true.'')]))"

text \<open>
  The telemetry fields the subscriber callbacks overwrite (\<open>self._state\<close>,
  \<open>self._gps\<close>), with the attributes the requests read. \<open>None\<close> is a field that
  holds no message yet. \<open>tele n\<close> is the telemetry as consultation \<open>n\<close> finds it.
\<close>

record state_msg =
  mode :: string
  armed :: bool

record navsatfix =
  latitude :: real
  longitude :: real

record telemetry =
  state :: "state_msg option"
  gps :: "navsatfix option"

text \<open>The argument tuples \<open>req\<close> of the four requests.\<close>

datatype request =
    SetMode_req int string
  | CommandBool_req bool
  | CommandTOL_req real real real real real

text \<open>
  \<open>lambda: self._state.mode == mode\<close> and \<open>lambda: self._state.armed == arm_req\<close>:
  reading an attribute of a field that holds \<open>None\<close> raises \<open>AttributeError\<close>.
\<close>

definition mode_is :: "(nat \<Rightarrow> telemetry) \<Rightarrow> string \<Rightarrow> nat \<Rightarrow> exn + bool" where
  "mode_is tele m n =
     (case state (tele n) of None \<Rightarrow> Inl AttributeError | Some s \<Rightarrow> Inr (mode s = m))"

definition armed_is :: "(nat \<Rightarrow> telemetry) \<Rightarrow> bool \<Rightarrow> nat \<Rightarrow> exn + bool" where
  "armed_is tele arm_req n =
     (case state (tele n) of None \<Rightarrow> Inl AttributeError | Some s \<Rightarrow> Inr (armed s = arm_req))"

text \<open>\<open>_set_mode_request\<close>, lines 132 to 141.\<close>

definition set_mode_request ::
  "nat \<Rightarrow> ros \<Rightarrow> (nat \<Rightarrow> telemetry) \<Rightarrow> (request \<Rightarrow> nat \<Rightarrow> exn + srv_return) \<Rightarrow> string \<Rightarrow> real \<Rightarrow> real
    \<Rightarrow> ((exn + bool) \<times> event list) option" where
  "set_mode_request fuel r tele set_mode_client m wait_time timeout =
     set_service_request fuel r ''/mavros/set_mode'' (mode_is tele m)
       set_mode_client (SetMode_req 0 m) wait_time timeout"

text \<open>\<open>_set_arming_request\<close>, lines 143 to 152.\<close>

definition set_arming_request ::
  "nat \<Rightarrow> ros \<Rightarrow> (nat \<Rightarrow> telemetry) \<Rightarrow> (request \<Rightarrow> nat \<Rightarrow> exn + srv_return) \<Rightarrow> bool \<Rightarrow> real \<Rightarrow> real
    \<Rightarrow> ((exn + bool) \<times> event list) option" where
  "set_arming_request fuel r tele arming_client arm_req wait_time timeout =
     set_service_request fuel r ''/mavros/cmd/arming'' (armed_is tele arm_req)
       arming_client (CommandBool_req arm_req) wait_time timeout"

text \<open>
  \<open>_set_takeoff_request\<close> and \<open>_set_land_request\<close>, lines 154 to 174. The argument
  tuple reads \<open>self._gps\<close> before \<open>_set_service_request\<close> is entered.
\<close>

definition set_takeoff_request ::
  "nat \<Rightarrow> ros \<Rightarrow> (nat \<Rightarrow> telemetry) \<Rightarrow> (request \<Rightarrow> nat \<Rightarrow> exn + srv_return) \<Rightarrow> real \<Rightarrow> real \<Rightarrow> real
    \<Rightarrow> ((exn + bool) \<times> event list) option" where
  "set_takeoff_request fuel r tele takeoff_client takeoff_alt wait_time timeout =
     (case gps (tele 0) of
        None \<Rightarrow> Some (Inl AttributeError, [])
      | Some g \<Rightarrow>
          set_service_request fuel r ''/mavros/cmd/takeoff'' (mode_is tele ''AUTO.TAKEOFF'')
            takeoff_client (CommandTOL_req 0 0 (latitude g) (longitude g) takeoff_alt)
            wait_time timeout)"

definition set_land_request ::
  "nat \<Rightarrow> ros \<Rightarrow> (nat \<Rightarrow> telemetry) \<Rightarrow> (request \<Rightarrow> nat \<Rightarrow> exn + srv_return) \<Rightarrow> real \<Rightarrow> real \<Rightarrow> real
    \<Rightarrow> ((exn + bool) \<times> event list) option" where
  "set_land_request fuel r tele land_client land_alt wait_time timeout =
     (case gps (tele 0) of
        None \<Rightarrow> Some (Inl AttributeError, [])
      | Some g \<Rightarrow>
          set_service_request fuel r ''/mavros/cmd/land'' (mode_is tele ''AUTO.LAND'')
            land_client (CommandTOL_req 0 0 (latitude g) (longitude g) land_alt)
            wait_time timeout)"

section \<open>mavros\_uav\_robot\_env.py: the reset of the pose estimator\<close>









section \<open>airsim\_handler.py: the direct backend\<close>

text \<open>
  The calls \<open>AirsimHandler\<close> makes on \<open>self._client\<close>, with their arguments. A call
  such as \<open>moveToZAsync(...).join()\<close> is one call: its outcome is what \<open>join()\<close>
  returns or raises.
\<close>

record yaw_mode =
  is_rate :: bool
  yaw_or_rate :: real

datatype client_call =
    Reset
  | EnableApiControl bool
  | ArmDisarm bool
  | SimPause bool
  | MoveToZAsync real real real
  | LandAsync real
  | MoveByVelocityAsync real real real yaw_mode real
  | GetMultirotorState

text \<open>
  What a call returns: \<open>None\<close>, a boolean, or a multirotor state of type \<open>'s\<close>.
  A client is any function from the calls made so far and the call at hand to the
  outcome of that call.
\<close>

datatype 's pyval = PyNone | PyBool bool | PyState 's

type_synonym 's client = "client_call list \<Rightarrow> client_call \<Rightarrow> exn + 's pyval"

text \<open>
  The fields \<open>_new_state\<close> and \<open>_multirotor_state\<close> of the handler, the calls it has
  made on its client, and the lines it has passed to \<open>rospy.logerr\<close>.
\<close>

record 's airsim_handler =
  new_state :: bool
  multirotor_state :: "'s pyval"
  calls :: "client_call list"
  logerr :: "string list"

definition call ::
  "'s client \<Rightarrow> 's airsim_handler \<Rightarrow> client_call \<Rightarrow> (exn + 's pyval) \<times> 's airsim_handler" where
  "call c h k = (c (calls h) k, h\<lparr>calls := calls h @ [k]\<rparr>)"

text \<open>The clause \<open>except Exception as _: rospy.logerr(msg)\<close>.\<close>

definition except_Exception ::
  "string \<Rightarrow> exn \<Rightarrow> 's airsim_handler \<Rightarrow> (exn + 's pyval) \<times> 's airsim_handler" where
  "except_Exception msg e h =
     (if is_Exception e then (Inr PyNone, h\<lparr>logerr := logerr h @ [msg]\<rparr>) else (Inl e, h))"

text \<open>\<open>reset\<close>, lines 54 to 63.\<close>

definition reset :: "'s client \<Rightarrow> 's airsim_handler \<Rightarrow> (exn + 's pyval) \<times> 's airsim_handler" where
  "reset c h =
     (case call c h Reset of
        (Inl e, h1) \<Rightarrow> except_Exception ''Failed to reset simulation.'' e h1
      | (Inr _, h1) \<Rightarrow>
          (case call c h1 (EnableApiControl True) of
             (Inl e, h2) \<Rightarrow> except_Exception ''Failed to reset simulation.'' e h2
           | (Inr _, h2) \<Rightarrow>
               (case call c h2 (ArmDisarm False) of
                  (Inl e, h3) \<Rightarrow> except_Exception ''Failed to reset simulation.'' e h3
                | (Inr _, h3) \<Rightarrow> (Inr PyNone, h3))))"

text \<open>\<open>pause\<close> and \<open>unpause\<close>, lines 65 to 82.\<close>

definition pause :: "'s client \<Rightarrow> 's airsim_handler \<Rightarrow> (exn + 's pyval) \<times> 's airsim_handler" where
  "pause c h =
     (case call c h (SimPause True) of
        (Inl e, h1) \<Rightarrow> except_Exception ''Failed to pause simulation.'' e h1
      | (Inr _, h1) \<Rightarrow> (Inr PyNone, h1))"

definition unpause :: "'s client \<Rightarrow> 's airsim_handler \<Rightarrow> (exn + 's pyval) \<times> 's airsim_handler" where
  "unpause c h =
     (case call c h (SimPause False) of
        (Inl e, h1) \<Rightarrow> except_Exception ''Failed to unpause simulation.'' e h1
      | (Inr _, h1) \<Rightarrow> (Inr PyNone, h1\<lparr>new_state := True\<rparr>))"

text \<open>\<open>client_arm\<close>, \<open>client_takeoff\<close> and \<open>client_land\<close>, lines 84 to 112.\<close>

definition client_arm ::
  "'s client \<Rightarrow> 's airsim_handler \<Rightarrow> bool \<Rightarrow> (exn + 's pyval) \<times> 's airsim_handler" where
  "client_arm c h arm_req = call c h (ArmDisarm arm_req)"

definition client_takeoff ::
  "'s client \<Rightarrow> 's airsim_handler \<Rightarrow> real \<Rightarrow> (exn + 's pyval) \<times> 's airsim_handler" where
  "client_takeoff c h takeoff_z = call c h (MoveToZAsync (- takeoff_z) 1.0 2.0)"

definition client_land :: "'s client \<Rightarrow> 's airsim_handler \<Rightarrow> (exn + 's pyval) \<times> 's airsim_handler" where
  "client_land c h = call c h (LandAsync 5)"

text \<open>
  \<open>client_cmd_vel\<close>, lines 114 to 140: the value of \<open>join()\<close> is dropped and the
  method returns \<open>None\<close>.
\<close>

definition client_cmd_vel ::
  "'s client \<Rightarrow> 's airsim_handler \<Rightarrow> real \<Rightarrow> real \<Rightarrow> real \<Rightarrow> real
    \<Rightarrow> (exn + 's pyval) \<times> 's airsim_handler" where
  "client_cmd_vel c h vel_x vel_y vel_z yaw_rate =
     (let yaw_cmd = \<lparr>is_rate = True, yaw_or_rate = yaw_rate\<rparr> in
      case call c h (MoveByVelocityAsync vel_x vel_y vel_z yaw_cmd 0.005) of
        (Inl e, h1) \<Rightarrow> (Inl e, h1)
      | (Inr _, h1) \<Rightarrow> (Inr PyNone, h1))"

text \<open>The property \<open>client_state\<close>, lines 142 to 150.\<close>

definition client_state ::
  "'s client \<Rightarrow> 's airsim_handler \<Rightarrow> (exn + 's pyval) \<times> 's airsim_handler" where
  "client_state c h =
     (if new_state h then
        (case call c h GetMultirotorState of
           (Inl e, h1) \<Rightarrow> (Inl e, h1)
         | (Inr v, h1) \<Rightarrow> (Inr v, h1\<lparr>multirotor_state := v, new_state := False\<rparr>))
      else (Inr (multirotor_state h), h))"

section \<open>The service request: short-circuit and rejection\<close>

text \<open>
  C9. For every command whose readiness condition already holds when
  \<open>_set_service_request\<close> is entered (the first \<open>cond()\<close>, consultation 1, answers
  true), the call returns \<open>True\<close> at once: after reading the clock and evaluating
  the condition once it only logs, so the service is not invoked and the condition
  is not polled again. This holds for every service proxy and every amount of fuel.
\<close>

theorem set_service_request_already_true:
  assumes "cond 1 = Inr True"
  shows "set_service_request fuel r name cond srv req wait_time timeout =
           Some (Inr True, [Time_now, Cond,
             Loginfo (''Service '' @ name @ '' condition is already true.'')])"
  using assms by (simp add: set_service_request_def)

theorem set_service_request_already_true_witness:
  "set_service_request 0 \<lparr>now = \<lambda>n. 0, is_shutdown = \<lambda>n. False\<rparr> ''/mavros/cmd/arming''
     (\<lambda>n. Inr True) (\<lambda>q n. Inl Other_Exception) (CommandBool_req True) 0.05 5 =
   Some (Inr True, [Time_now, Cond,
     Loginfo ''Service /mavros/cmd/arming condition is already true.''])"
  using set_service_request_already_true
    [where cond = "\<lambda>n. Inr True" and fuel = 0 and name = "''/mavros/cmd/arming''"
       and r = "\<lparr>now = \<lambda>n. 0, is_shutdown = \<lambda>n. False\<rparr>"
       and srv = "\<lambda>q n. Inl Other_Exception" and req = "CommandBool_req True"
       and wait_time = "0.05" and timeout = 5]
  by simp

text \<open>
  What does reject a request: with the condition false at entry, if the service
  invocation (consultation 2) raises \<open>rospy.ServiceException\<close> or returns an object
  that tests false, then \<open>_set_service_request\<close> returns \<open>False\<close>, and the events
  end with the call and a warning: the condition is not evaluated after the call.
\<close>

lemma set_service_request_rejected:
  assumes "cond 1 = Inr False"
    and "srv req 2 = Inl ServiceException \<or> (\<exists>v. srv req 2 = Inr v \<and> \<not> truth v)"
  shows "set_service_request fuel r name cond srv req wait_time timeout =
           Some (Inr False, [Time_now, Cond, Srv,
             Logwarn (''Call to service '' @ name @ '' failed.'')])"
  using assms by (auto simp: set_service_request_def except_ServiceException_def)

text \<open>
  But a response message never tests false. Whatever acknowledgement the response
  carries, line 114 takes the request as accepted, logs its success and enters the
  confirmation loop.
\<close>

lemma set_service_request_response_accepted:
  assumes "cond 1 = Inr False" and "srv req 2 = Inr (Response ack)"
  shows "set_service_request fuel r name cond srv req wait_time timeout =
           (case wait_for_updated_state fuel r name cond (now r 0) timeout 3
                   [Time_now, Cond, Srv,
                    Loginfo (''Service '' @ name @ '' request successful!'')] of
              None \<Rightarrow> None
            | Some (Inl e, tr) \<Rightarrow> Some (except_ServiceException name e tr)
            | Some (Inr b, tr) \<Rightarrow> Some (Inr b, tr))"
  using assms by (simp add: set_service_request_def)

text \<open>
  C4. The claim is that a rejection signalled by the service invocation, be it a
  service exception or a negative acknowledgement, makes \<open>_set_service_request\<close>
  return \<open>False\<close> without polling the readiness predicate. For the exception the
  code does so (the first lemma above); for a negative acknowledgement it does not. Here the
  arming service answers with a response whose \<open>success\<close> is false, and the clock
  advances by one millisecond at each consultation. With a condition that stays
  false the call logs a success, polls the condition twice and only returns
  \<open>False\<close> through the timeout (6 milliseconds here); with a condition that turns
  true at consultation 6 it polls twice and returns \<open>True\<close>.
\<close>

theorem set_service_request_negative_ack_polls:
  "set_service_request 2 \<lparr>now = \<lambda>n. int n * 1000000, is_shutdown = \<lambda>n. False\<rparr>
     ''/mavros/cmd/arming'' (\<lambda>n. Inr False) (\<lambda>q n. Inr (Response False))
     (CommandBool_req True) 0.05 0.006 =
   Some (Inr False, [Time_now, Cond, Srv,
     Loginfo ''Service /mavros/cmd/arming request successful!'',
     Cond, Is_shutdown, Time_now, Cond, Is_shutdown, Time_now,
     Logfatal ''Call to service /mavros/cmd/arming successful but not response...'']) \<and>
   set_service_request 2 \<lparr>now = \<lambda>n. int n * 1000000, is_shutdown = \<lambda>n. False\<rparr>
     ''/mavros/cmd/arming'' (\<lambda>n. Inr (6 \<le> n)) (\<lambda>q n. Inr (Response False))
     (CommandBool_req True) 0.05 5 =
   Some (Inr True, [Time_now, Cond, Srv,
     Loginfo ''Service /mavros/cmd/arming request successful!'',
     Cond, Is_shutdown, Time_now, Cond])"
  by (simp add: set_service_request_def to_sec_def eval_nat_numeral)

section \<open>The service request: the confirmation loop\<close>

text \<open>
  What the loop does when the shutdown flag is found set: whenever \<open>cond()\<close> answers
  false and \<open>rospy.is_shutdown()\<close> answers true, the loop is left through its
  condition and line 120 returns \<open>True\<close>.
\<close>

lemma wait_for_updated_state_shutdown:
  assumes "cond n = Inr False" and "is_shutdown r (n + 1)"
  shows "wait_for_updated_state (Suc fuel) r name cond start_time timeout n tr =
           Some (Inr True, tr @ [Cond, Is_shutdown])"
  using assms by simp

text \<open>
  C1. The claim is that a shutdown signalled during the confirmation wait makes the
  call return a falsy result. The code does not: here the service accepts the
  request, the condition stays false, the clock stands still (so the 5 second
  timeout is never reached), and \<open>rospy.is_shutdown()\<close> is false at its first check
  (consultation 4) and true at its second (consultation 7). The call returns
  \<open>True\<close>, the value it returns when the condition was confirmed.
\<close>

theorem set_service_request_shutdown_returns_True:
  "set_service_request 2 \<lparr>now = \<lambda>n. 0, is_shutdown = \<lambda>n. 7 \<le> n\<rparr> ''/mavros/cmd/arming''
     (\<lambda>n. Inr False) (\<lambda>q n. Inr (Response True)) (CommandBool_req True) 0.05 5 =
   Some (Inr True, [Time_now, Cond, Srv,
     Loginfo ''Service /mavros/cmd/arming request successful!'',
     Cond, Is_shutdown, Time_now, Cond, Is_shutdown])"
  by (simp add: set_service_request_def to_sec_def eval_nat_numeral)

text \<open>
  C7. The claim is that \<open>wait_time\<close> separates successive evaluations of the
  readiness predicate. The body of \<open>_set_service_request\<close> never reads
  \<open>wait_time\<close>: for all other arguments and every behaviour of the outside world,
  two calls that differ in \<open>wait_time\<close> only return the same result after the same
  events.
\<close>

theorem set_service_request_ignores_wait_time:
  "set_service_request fuel r name cond srv req wait_time timeout =
   set_service_request fuel r name cond srv req wait_time' timeout"
  by (simp add: set_service_request_def)

text \<open>
  An instance: with \<open>wait_time\<close> of 2 seconds and a clock that advances by one
  millisecond at each consultation, the condition is evaluated at consultations 3
  and 6, three milliseconds apart, and the call times out (\<open>timeout\<close> of 6
  milliseconds) 8 milliseconds after it started.
\<close>

lemma set_service_request_polls_without_waiting:
  "set_service_request 2 \<lparr>now = \<lambda>n. int n * 1000000, is_shutdown = \<lambda>n. False\<rparr>
     ''/mavros/cmd/arming'' (\<lambda>n. Inr False) (\<lambda>q n. Inr (Response True)) (CommandBool_req True) 2 0.006 =
   Some (Inr False, [Time_now, Cond, Srv,
     Loginfo ''Service /mavros/cmd/arming request successful!'',
     Cond, Is_shutdown, Time_now, Cond, Is_shutdown, Time_now,
     Logfatal ''Call to service /mavros/cmd/arming successful but not response...''])"
  by (simp add: set_service_request_def to_sec_def eval_nat_numeral)

text \<open>
  The confirming run, for comparison: the service accepts, the first poll is false and
  the second is true, and the call returns \<open>True\<close>.
\<close>

lemma set_service_request_confirmed:
  "set_service_request 2 \<lparr>now = \<lambda>n. int n * 1000000, is_shutdown = \<lambda>n. False\<rparr>
     ''/mavros/cmd/arming'' (\<lambda>n. Inr (6 \<le> n)) (\<lambda>q n. Inr (Response True)) (CommandBool_req True) 0.05 5 =
   Some (Inr True, [Time_now, Cond, Srv,
     Loginfo ''Service /mavros/cmd/arming request successful!'',
     Cond, Is_shutdown, Time_now, Cond])"
  by (simp add: set_service_request_def to_sec_def eval_nat_numeral)

section \<open>The service request: a telemetry field that holds no message\<close>

text \<open>
  C6, the claim as stated fails. With \<open>self._state\<close> unset, the readiness predicate
  of \<open>_set_mode_request\<close> raises \<open>AttributeError\<close> instead of answering false, and
  the call lets the exception out at its first evaluation instead of timing out.
\<close>

theorem set_mode_request_unset_state_raises:
  "mode_is (\<lambda>n. \<lparr>state = None, gps = None\<rparr>) ''OFFBOARD'' 1 = Inl AttributeError \<and>
   set_mode_request 9 \<lparr>now = \<lambda>n. 0, is_shutdown = \<lambda>n. False\<rparr>
     (\<lambda>n. \<lparr>state = None, gps = None\<rparr>) (\<lambda>q n. Inr (Response True)) ''OFFBOARD'' 0.05 5 =
   Some (Inl AttributeError, [Time_now, Cond])"
  by (simp add: set_mode_request_def set_service_request_def mode_is_def)

text \<open>
  C6, amended. For each of the four requests issued through
  \<open>_set_service_request\<close> (mode, arming, takeoff, land), if \<open>self._state\<close> is unset
  when the readiness predicate is first evaluated (consultation 1), the predicate
  raises \<open>AttributeError\<close> and the request lets it propagate to its caller before
  the service is invoked: no event follows the first \<open>cond()\<close>. (Takeoff and land
  raise the same exception earlier still, with no event at all, when \<open>self._gps\<close>
  is unset.)
\<close>

theorem requests_unset_state_raise:
  assumes "state (tele 1) = None"
  shows "mode_is tele m 1 = Inl AttributeError \<and>
         armed_is tele arm_req 1 = Inl AttributeError \<and>
         set_mode_request fuel r tele srv m wait_time timeout =
           Some (Inl AttributeError, [Time_now, Cond]) \<and>
         set_arming_request fuel r tele srv arm_req wait_time timeout =
           Some (Inl AttributeError, [Time_now, Cond]) \<and>
         set_takeoff_request fuel r tele srv alt wait_time timeout =
           Some (Inl AttributeError, if gps (tele 0) = None then [] else [Time_now, Cond]) \<and>
         set_land_request fuel r tele srv alt wait_time timeout =
           Some (Inl AttributeError, if gps (tele 0) = None then [] else [Time_now, Cond])"
  using assms
  by (auto simp: mode_is_def armed_is_def set_mode_request_def set_arming_request_def
      set_takeoff_request_def set_land_request_def set_service_request_def
      split: option.splits)

theorem requests_unset_state_raise_witness:
  "set_arming_request 9 \<lparr>now = \<lambda>n. 0, is_shutdown = \<lambda>n. False\<rparr>
     (\<lambda>n. \<lparr>state = None, gps = Some \<lparr>latitude = 47, longitude = 8\<rparr>\<rparr>)
     (\<lambda>q n. Inr (Response True)) True 0.05 5 =
   Some (Inl AttributeError, [Time_now, Cond]) \<and>
   set_takeoff_request 9 \<lparr>now = \<lambda>n. 0, is_shutdown = \<lambda>n. False\<rparr>
     (\<lambda>n. \<lparr>state = None, gps = Some \<lparr>latitude = 47, longitude = 8\<rparr>\<rparr>)
     (\<lambda>q n. Inr (Response True)) 3 0.05 5 =
   Some (Inl AttributeError, [Time_now, Cond])"
  using requests_unset_state_raise
    [where tele = "\<lambda>n. \<lparr>state = None, gps = Some \<lparr>latitude = 47, longitude = 8\<rparr>\<rparr>"
       and fuel = 9 and r = "\<lparr>now = \<lambda>n. 0, is_shutdown = \<lambda>n. False\<rparr>"
       and srv = "\<lambda>q n. Inr (Response True)" and arm_req = True and alt = 3
       and wait_time = "0.05" and timeout = 5]
  by simp

section \<open>The reset of the pose estimator: when the wait ends\<close>











section \<open>The direct backend: the cached state across a reset\<close>

text \<open>
  \<open>reset\<close> writes neither \<open>_new_state\<close> nor \<open>_multirotor_state\<close>, whatever the
  client answers.
\<close>

lemma reset_keeps_cache:
  "new_state (snd (reset c h)) = new_state h \<and>
   multirotor_state (snd (reset c h)) = multirotor_state h"
  by (simp add: reset_def call_def except_Exception_def split: sum.splits)

text \<open>
  So a read of \<open>client_state\<close> that follows a \<open>reset\<close> of a handler whose cached
  state is not stale returns the cached state and asks the client nothing.
\<close>

lemma client_state_after_reset:
  assumes "\<not> new_state h"
  shows "client_state c (snd (reset c h)) = (Inr (multirotor_state h), snd (reset c h))"
  using assms reset_keeps_cache [of c h] by (simp add: client_state_def)

text \<open>
  C2. The claim is that \<open>reset()\<close> followed by a read of \<open>client_state\<close> returns a
  state fetched from the client after the reset. The code does not: the handler
  below holds the state 0 in its cache, not stale; the client would answer
  \<open>getMultirotorState\<close> with the number of calls made before it, here 3. After
  \<open>reset()\<close> the read returns the state 0 of before the reset, and the calls made
  are the three of \<open>reset()\<close> alone.
\<close>

theorem client_state_after_reset_is_cached:
  "client_state
     (\<lambda>cs k. if k = GetMultirotorState then Inr (PyState (length cs)) else Inr PyNone)
     (snd (reset
        (\<lambda>cs k. if k = GetMultirotorState then Inr (PyState (length cs)) else Inr PyNone)
        \<lparr>new_state = False, multirotor_state = PyState 0, calls = [], logerr = []\<rparr>)) =
   (Inr (PyState 0),
    \<lparr>new_state = False, multirotor_state = PyState 0,
     calls = [Reset, EnableApiControl True, ArmDisarm False], logerr = []\<rparr>)"
  by (simp add: client_state_def reset_def call_def)

text \<open>
  By contrast \<open>unpause()\<close>, when the client accepts it, marks the cache stale, and
  the next read fetches a state from the client.
\<close>

lemma client_state_after_unpause:
  assumes "c (calls h) (SimPause False) = Inr v"
    and "c (calls h @ [SimPause False]) GetMultirotorState = Inr s"
  shows "fst (client_state c (snd (unpause c h))) = Inr s"
  using assms by (simp add: client_state_def unpause_def call_def)

section \<open>The direct backend: exceptions of the client\<close>

text \<open>
  C3, the claim as stated fails. With a client whose every call raises,
  \<open>client_arm\<close> returns no result: the exception leaves the method.
\<close>

theorem client_arm_raises:
  "fst (client_arm (\<lambda>cs k. Inl Other_Exception)
          \<lparr>new_state = True, multirotor_state = (PyNone :: nat pyval), calls = [], logerr = []\<rparr>
          True) = Inl Other_Exception"
  by (simp add: client_arm_def call_def)

text \<open>
  C3, amended. For every direct-backend operation (arm or disarm, takeoff, land,
  set velocity), if the underlying call on the client raises an exception, the
  operation has no handler at its boundary: the same exception propagates to the
  caller, and no result is returned.
\<close>

theorem client_operations_propagate:
  "(c (calls h) (ArmDisarm arm_req) = Inl e \<longrightarrow> fst (client_arm c h arm_req) = Inl e) \<and>
   (c (calls h) (MoveToZAsync (- takeoff_z) 1 2) = Inl e \<longrightarrow>
      fst (client_takeoff c h takeoff_z) = Inl e) \<and>
   (c (calls h) (LandAsync 5) = Inl e \<longrightarrow> fst (client_land c h) = Inl e) \<and>
   (c (calls h)
      (MoveByVelocityAsync vel_x vel_y vel_z \<lparr>is_rate = True, yaw_or_rate = yaw_rate\<rparr>
         0.005) = Inl e \<longrightarrow>
      fst (client_cmd_vel c h vel_x vel_y vel_z yaw_rate) = Inl e)"
  by (simp add: client_arm_def client_takeoff_def client_land_def client_cmd_vel_def
      call_def)

theorem client_operations_propagate_witness:
  "fst (client_arm (\<lambda>cs k. Inl Other_Exception)
          \<lparr>new_state = True, multirotor_state = (PyNone :: nat pyval), calls = [], logerr = []\<rparr>
          False) = Inl Other_Exception \<and>
   fst (client_takeoff (\<lambda>cs k. Inl Other_Exception)
          \<lparr>new_state = True, multirotor_state = (PyNone :: nat pyval), calls = [], logerr = []\<rparr>
          3) = Inl Other_Exception \<and>
   fst (client_land (\<lambda>cs k. Inl Other_Exception)
          \<lparr>new_state = True, multirotor_state = (PyNone :: nat pyval), calls = [], logerr = []\<rparr>)
     = Inl Other_Exception \<and>
   fst (client_cmd_vel (\<lambda>cs k. Inl Other_Exception)
          \<lparr>new_state = True, multirotor_state = (PyNone :: nat pyval), calls = [], logerr = []\<rparr>
          1 0 0 0) = Inl Other_Exception"
  using client_operations_propagate
    [where c = "\<lambda>cs k. Inl Other_Exception" and e = Other_Exception
       and h = "\<lparr>new_state = True, multirotor_state = (PyNone :: nat pyval), calls = [],
                  logerr = []\<rparr>"
       and arm_req = False and takeoff_z = 3 and vel_x = 1 and vel_y = 0 and vel_z = 0
       and yaw_rate = 0]
  by simp

text \<open>
  The three world-control methods do have a handler: an exception of class
  \<open>Exception\<close> raised by the first call is logged and the method returns \<open>None\<close>.
\<close>

lemma world_control_catches:
  assumes "is_Exception e"
  shows "c (calls h) Reset = Inl e \<Longrightarrow> fst (reset c h) = Inr PyNone"
    and "c (calls h) (SimPause True) = Inl e \<Longrightarrow> fst (pause c h) = Inr PyNone"
    and "c (calls h) (SimPause False) = Inl e \<Longrightarrow> fst (unpause c h) = Inr PyNone"
  using assms by (simp_all add: reset_def pause_def unpause_def call_def except_Exception_def)

section \<open>The direct backend: takeoff\<close>

text \<open>
  C10. For every requested altitude \<open>takeoff_z\<close>, \<open>client_takeoff\<close> makes exactly one
  call on the client, the move to altitude with target \<open>z = - takeoff_z\<close> (the
  caller's frame has z upwards, the client's NED frame has z downwards), velocity 1.0
  and a timeout of 2.0 seconds, and returns what that call returns or raises.
\<close>

theorem client_takeoff_call:
  "client_takeoff c h takeoff_z =
     (c (calls h) (MoveToZAsync (- takeoff_z) 1 2),
      h\<lparr>calls := calls h @ [MoveToZAsync (- takeoff_z) 1 2]\<rparr>)"
  by (simp add: client_takeoff_def call_def)

theorem client_takeoff_call_witness:
  "client_takeoff (\<lambda>cs k. Inr PyNone)
     \<lparr>new_state = True, multirotor_state = (PyNone :: nat pyval), calls = [ArmDisarm True],
      logerr = []\<rparr> 10 =
   (Inr PyNone,
    \<lparr>new_state = True, multirotor_state = PyNone,
     calls = [ArmDisarm True, MoveToZAsync (- 10) 1 2], logerr = []\<rparr>)"
  using client_takeoff_call
    [where c = "\<lambda>cs k. Inr (PyNone :: nat pyval)" and takeoff_z = 10
       and h = "\<lparr>new_state = True, multirotor_state = (PyNone :: nat pyval),
                  calls = [ArmDisarm True], logerr = []\<rparr>"]
  by simp

end
